theory Spec2Isabelle
  imports Main "HOL-Library.Word"
begin

section \<open>Go's float64\<close>

text \<open>
  The chaincode keeps every amount (\<open>LoanAmount\<close>, \<open>InterestRate\<close>, \<open>Outstanding\<close>,
  \<open>Repayments\<close>) in a Go \<open>float64\<close>, an IEEE 754 binary64 value. It is modelled by its 64-bit
  pattern: bit 63 is the sign, bits 62..52 the biased exponent, bits 51..0 the fraction.

  Every finite binary64 value is an integer multiple of \<open>2^-1074\<close>; \<open>magnitude\<close> is that
  integer, so that comparison and subtraction are exact integer arithmetic followed by one
  rounding. For an infinity the same formula gives \<open>2^2098\<close>, above every finite magnitude.
\<close>

type_synonym float64 = "64 word"

definition sign_bit :: "float64 \<Rightarrow> bool" where
  "sign_bit w = (2 ^ 63 \<le> unat w)"

definition biased_exp :: "float64 \<Rightarrow> nat" where
  "biased_exp w = (unat w div 2 ^ 52) mod 2 ^ 11"

definition fraction :: "float64 \<Rightarrow> nat" where
  "fraction w = unat w mod 2 ^ 52"

definition is_nan :: "float64 \<Rightarrow> bool" where
  "is_nan w = (biased_exp w = 2047 \<and> fraction w \<noteq> 0)"

definition is_inf :: "float64 \<Rightarrow> bool" where
  "is_inf w = (biased_exp w = 2047 \<and> fraction w = 0)"

definition is_finite :: "float64 \<Rightarrow> bool" where
  "is_finite w = (biased_exp w < 2047)"

definition magnitude :: "float64 \<Rightarrow> nat" where
  "magnitude w = (if biased_exp w = 0 then fraction w
                  else (2 ^ 52 + fraction w) * 2 ^ (biased_exp w - 1))"

definition scaled :: "float64 \<Rightarrow> int" where
  "scaled w = (if sign_bit w then - int (magnitude w) else int (magnitude w))"

text \<open>Go's \<open><\<close>, \<open><=\<close>, \<open>>\<close> on float64: false as soon as one side is a NaN; the two
  zeros compare equal.\<close>

definition f64_lt :: "float64 \<Rightarrow> float64 \<Rightarrow> bool" where
  "f64_lt x y = (\<not> is_nan x \<and> \<not> is_nan y \<and> scaled x < scaled y)"

definition f64_le :: "float64 \<Rightarrow> float64 \<Rightarrow> bool" where
  "f64_le x y = (\<not> is_nan x \<and> \<not> is_nan y \<and> scaled x \<le> scaled y)"

definition f64_gt :: "float64 \<Rightarrow> float64 \<Rightarrow> bool" where
  "f64_gt x y = f64_lt y x"

definition f64_eq :: "float64 \<Rightarrow> float64 \<Rightarrow> bool" where
  "f64_eq x y = (\<not> is_nan x \<and> \<not> is_nan y \<and> scaled x = scaled y)"

definition f64_zero :: float64 where
  "f64_zero = 0"

definition quiet_nan :: float64 where
  "quiet_nan = 0x7FF8000000000000"

definition pack :: "bool \<Rightarrow> nat \<Rightarrow> float64" where
  "pack s n = word_of_nat ((if s then 2 ^ 63 else 0) + n)"

fun bitlen :: "nat \<Rightarrow> nat" where
  "bitlen n = (if n = 0 then 0 else Suc (bitlen (n div 2)))"

declare bitlen.simps [simp del]

text \<open>
  Round to nearest, ties to even: a magnitude \<open>a\<close> (in units of \<open>2^-1074\<close>) keeps its 53
  leading bits. The result is given as the 63 low bits of the pattern, exponent field and
  fraction together, so that a carry out of the fraction moves into the exponent; a pattern
  at or above exponent 2047 is the infinity.
\<close>

definition round_bits :: "nat \<Rightarrow> nat" where
  "round_bits a =
    (let sh = bitlen a - 53;
         q = a div 2 ^ sh;
         r = a mod 2 ^ sh;
         q' = (if 2 ^ sh < 2 * r \<or> (2 * r = 2 ^ sh \<and> odd q) then q + 1 else q);
         n = sh * 2 ^ 52 + q'
     in if 2047 * 2 ^ 52 \<le> n then 2047 * 2 ^ 52 else n)"

text \<open>
  Go's \<open>x - y\<close> on float64 (the \<open>-=\<close> of \<open>MakeRepayment\<close>). Which NaN an invalid
  subtraction gives depends on the processor; the chaincode cannot tell one NaN from
  another, and one quiet NaN stands for all. An exact zero difference is \<open>+0\<close>, except
  \<open>(-0) - (+0) = -0\<close>.
\<close>

definition f64_sub :: "float64 \<Rightarrow> float64 \<Rightarrow> float64" where
  "f64_sub x y =
    (if is_nan x \<or> is_nan y then quiet_nan
     else if is_inf x then (if is_inf y \<and> sign_bit x = sign_bit y then quiet_nan else x)
     else if is_inf y then pack (\<not> sign_bit y) (2047 * 2 ^ 52)
     else let k = scaled x - scaled y in
       if k = 0 then pack (sign_bit x \<and> \<not> sign_bit y) 0
       else pack (k < 0) (round_bits (nat \<bar>k\<bar>)))"

section \<open>The loan record and the ledger\<close>

record Loan =
  LoanID :: string
  ApplicantName :: string
  LoanAmount :: float64
  TermMonths :: "64 word"
  InterestRate :: float64
  Outstanding :: float64
  Status :: string
  Repayments :: "float64 list"

text \<open>
  The chaincode returns \<open>fmt.Errorf\<close> values told apart by their message only; each message
  is a constructor here. \<open>ReadFailed\<close> and \<open>WriteFailed\<close> are the errors handed back by
  \<open>GetState\<close> and \<open>PutState\<close>, \<open>MarshalFailed\<close> the one of \<open>json.Marshal\<close>.
  \<open>kind_of\<close> gives the error kind of the specification that a message stands for.
\<close>

datatype error =
    EmptyLoanID
  | EmptyApplicantName
  | NonPositiveLoanAmount
  | NonPositiveTerm
  | NegativeInterestRate
  | ReadFailed
  | LoanAlreadyExists
  | MarshalFailed
  | WriteFailed
  | InvalidDecision
  | LoanDoesNotExist
  | NotInAppliedStatus
  | NonPositiveRepayment
  | NotApproved
  | ExceedsOutstanding

datatype error_kind =
    InvalidArgument
  | NotFound
  | AlreadyExists
  | InvalidState
  | ExceedsBalance
  | StoreUnavailable
  | EncodingFailure

fun kind_of :: "error \<Rightarrow> error_kind" where
  "kind_of EmptyLoanID = InvalidArgument"
| "kind_of EmptyApplicantName = InvalidArgument"
| "kind_of NonPositiveLoanAmount = InvalidArgument"
| "kind_of NonPositiveTerm = InvalidArgument"
| "kind_of NegativeInterestRate = InvalidArgument"
| "kind_of ReadFailed = StoreUnavailable"
| "kind_of LoanAlreadyExists = AlreadyExists"
| "kind_of MarshalFailed = EncodingFailure"
| "kind_of WriteFailed = StoreUnavailable"
| "kind_of InvalidDecision = InvalidArgument"
| "kind_of LoanDoesNotExist = NotFound"
| "kind_of NotInAppliedStatus = InvalidState"
| "kind_of NonPositiveRepayment = InvalidArgument"
| "kind_of NotApproved = InvalidState"
| "kind_of ExceedsOutstanding = ExceedsBalance"

text \<open>
  The ledger behind \<open>ctx.GetStub()\<close>: the world state maps a key to the stored loan. The
  chaincode stores \<open>json.Marshal loan\<close> and reads it back with \<open>json.Unmarshal\<close>; the stored
  bytes are identified with the record they decode to: Go prints a finite float64 with the
  shortest digits that parse back to the same value, and strings are taken to be valid
  UTF-8, which JSON carries unchanged (in a \<open>loanID\<close> or \<open>applicantName\<close> that is not,
  \<open>json.Marshal\<close> replaces the invalid bytes, which is outside this model; the key of the
  record, its amounts, status and repayments are not affected). \<open>json.Marshal\<close> refuses a float64
  that is a NaN or an infinity, which is the only way it fails on a \<open>Loan\<close>.
  Whether the ledger answers a read or a write of a key with an error is not decided by the
  chaincode: \<open>read_fails\<close> and \<open>write_fails\<close> stand for it.
\<close>

record stub =
  world :: "string \<rightharpoonup> Loan"
  read_fails :: "string \<Rightarrow> bool"
  write_fails :: "string \<Rightarrow> bool"

definition GetState :: "stub \<Rightarrow> string \<Rightarrow> error + Loan option" where
  "GetState st key = (if read_fails st key then Inl ReadFailed else Inr (world st key))"

definition PutState :: "stub \<Rightarrow> string \<Rightarrow> Loan \<Rightarrow> error option \<times> stub" where
  "PutState st key v =
    (if write_fails st key then (Some WriteFailed, st)
     else (None, st\<lparr>world := (world st)(key \<mapsto> v)\<rparr>))"

definition encodable :: "Loan \<Rightarrow> bool" where
  "encodable l =
    (is_finite (LoanAmount l) \<and> is_finite (InterestRate l) \<and> is_finite (Outstanding l)
      \<and> list_all is_finite (Repayments l))"

definition Marshal :: "Loan \<Rightarrow> error + Loan" where
  "Marshal l = (if encodable l then Inr l else Inl MarshalFailed)"

section \<open>The four transactions\<close>

text \<open>Each transaction returns the error of the Go function (\<open>None\<close> for \<open>nil\<close>) and the
  ledger it leaves.\<close>

definition ApplyForLoan ::
  "stub \<Rightarrow> string \<Rightarrow> string \<Rightarrow> float64 \<Rightarrow> 64 word \<Rightarrow> float64 \<Rightarrow> error option \<times> stub" where
  "ApplyForLoan st loanID applicantName loanAmount termMonths interestRate =
    (if loanID = [] then (Some EmptyLoanID, st)
     else if applicantName = [] then (Some EmptyApplicantName, st)
     else if f64_le loanAmount f64_zero then (Some NonPositiveLoanAmount, st)
     else if sint termMonths \<le> 0 then (Some NonPositiveTerm, st)
     else if f64_lt interestRate f64_zero then (Some NegativeInterestRate, st)
     else case GetState st loanID of
       Inl e \<Rightarrow> (Some e, st)
     | Inr (Some existing) \<Rightarrow> (Some LoanAlreadyExists, st)
     | Inr None \<Rightarrow>
        (let loan = \<lparr>LoanID = loanID, ApplicantName = applicantName,
                     LoanAmount = loanAmount, TermMonths = termMonths,
                     InterestRate = interestRate, Outstanding = loanAmount,
                     Status = ''APPLIED'', Repayments = []\<rparr>
         in case Marshal loan of
              Inl e \<Rightarrow> (Some e, st)
            | Inr loanJSON \<Rightarrow> PutState st loanID loanJSON))"

definition ApproveLoan :: "stub \<Rightarrow> string \<Rightarrow> string \<Rightarrow> error option \<times> stub" where
  "ApproveLoan st loanID status =
    (if status \<noteq> ''APPROVED'' \<and> status \<noteq> ''REJECTED'' then (Some InvalidDecision, st)
     else case GetState st loanID of
       Inl e \<Rightarrow> (Some e, st)
     | Inr None \<Rightarrow> (Some LoanDoesNotExist, st)
     | Inr (Some loan) \<Rightarrow>
        (if Status loan \<noteq> ''APPLIED'' then (Some NotInAppliedStatus, st)
         else case Marshal (loan\<lparr>Status := status\<rparr>) of
                Inl e \<Rightarrow> (Some e, st)
              | Inr updatedLoanJSON \<Rightarrow> PutState st loanID updatedLoanJSON))"

definition MakeRepayment :: "stub \<Rightarrow> string \<Rightarrow> float64 \<Rightarrow> error option \<times> stub" where
  "MakeRepayment st loanID repaymentAmount =
    (if f64_le repaymentAmount f64_zero then (Some NonPositiveRepayment, st)
     else case GetState st loanID of
       Inl e \<Rightarrow> (Some e, st)
     | Inr None \<Rightarrow> (Some LoanDoesNotExist, st)
     | Inr (Some loan) \<Rightarrow>
        (if Status loan \<noteq> ''APPROVED'' then (Some NotApproved, st)
         else if f64_gt repaymentAmount (Outstanding loan) then (Some ExceedsOutstanding, st)
         else
           (let loan1 = loan\<lparr>Outstanding := f64_sub (Outstanding loan) repaymentAmount\<rparr>;
                loan2 = loan1\<lparr>Repayments := Repayments loan1 @ [repaymentAmount]\<rparr>;
                loan3 = (if f64_le (Outstanding loan2) f64_zero
                         then loan2\<lparr>Status := ''PAID''\<rparr> else loan2)
            in case Marshal loan3 of
                 Inl e \<Rightarrow> (Some e, st)
               | Inr updatedLoanJSON \<Rightarrow> PutState st loanID updatedLoanJSON)))"

definition CheckLoanBalance :: "stub \<Rightarrow> string \<Rightarrow> (error + Loan) \<times> stub" where
  "CheckLoanBalance st loanID =
    (case GetState st loanID of
       Inl e \<Rightarrow> (Inl e, st)
     | Inr None \<Rightarrow> (Inl LoanDoesNotExist, st)
     | Inr (Some loan) \<Rightarrow> (Inr loan, st))"

section \<open>Sequences of accepted transactions\<close>

text \<open>The three mutating transactions as values, and the ledgers that accepted transactions
  build from an empty world state.\<close>

datatype tx =
    Apply string string float64 "64 word" float64
  | Decide string string
  | Repay string float64

fun submit :: "tx \<Rightarrow> stub \<Rightarrow> error option \<times> stub" where
  "submit (Apply loanID applicantName loanAmount termMonths interestRate) st =
     ApplyForLoan st loanID applicantName loanAmount termMonths interestRate"
| "submit (Decide loanID status) st = ApproveLoan st loanID status"
| "submit (Repay loanID repaymentAmount) st = MakeRepayment st loanID repaymentAmount"

inductive reachable :: "stub \<Rightarrow> bool" where
  genesis: "world st = Map.empty \<Longrightarrow> reachable st"
| accepted: "reachable st \<Longrightarrow> submit t st = (None, st') \<Longrightarrow> reachable st'"

text \<open>
  The exact value of a record's books, in units of \<open>2^-1074\<close>: what has been repaid, and
  whether repayments and outstanding balance add up to the principal.
\<close>

definition total_repaid :: "float64 list \<Rightarrow> int" where
  "total_repaid rs = sum_list (map scaled rs)"

definition balanced :: "Loan \<Rightarrow> bool" where
  "balanced l = (total_repaid (Repayments l) + scaled (Outstanding l) = scaled (LoanAmount l))"

text \<open>A float64 subtraction is exact when it loses nothing to rounding.\<close>

definition exact_sub :: "float64 \<Rightarrow> float64 \<Rightarrow> bool" where
  "exact_sub x y = (scaled (f64_sub x y) = scaled x - scaled y)"

text \<open>The key a transaction works on. A transaction is exact on a key when it is not a
  repayment on that key, or the subtraction it performs on the stored balance is exact; the
  ledgers built by accepted transactions that are all exact on a key.\<close>

fun tx_key :: "tx \<Rightarrow> string" where
  "tx_key (Apply loanID applicantName loanAmount termMonths interestRate) = loanID"
| "tx_key (Decide loanID status) = loanID"
| "tx_key (Repay loanID repaymentAmount) = loanID"

fun exact_on :: "string \<Rightarrow> tx \<Rightarrow> stub \<Rightarrow> bool" where
  "exact_on k (Repay loanID repaymentAmount) st =
     (if loanID = k
      then (case world st loanID of
              None \<Rightarrow> True
            | Some loan \<Rightarrow> exact_sub (Outstanding loan) repaymentAmount)
      else True)"
| "exact_on k t st = True"

inductive reachable_exact_on :: "string \<Rightarrow> stub \<Rightarrow> bool" where
  genesis_exact: "world st = Map.empty \<Longrightarrow> reachable_exact_on k st"
| accepted_exact:
    "reachable_exact_on k st \<Longrightarrow> exact_on k t st \<Longrightarrow> submit t st = (None, st')
      \<Longrightarrow> reachable_exact_on k st'"

section \<open>Sample ledgers\<close>

definition stub0 :: stub where
  "stub0 = \<lparr>world = Map.empty, read_fails = (\<lambda>k. False), write_fails = (\<lambda>k. False)\<rparr>"

text \<open>The float64 values that \<open>strconv.ParseFloat\<close> gives for the arguments 5.5, 5000,
  2000, 3000, 5001, 1, 0.1 and Inf, and the float64 0.9.\<close>

definition rate_5_5 :: float64 where
  "rate_5_5 = 0x4016000000000000"

definition f64_5000 :: float64 where
  "f64_5000 = 0x40B3880000000000"

definition f64_2000 :: float64 where
  "f64_2000 = 0x409F400000000000"

definition f64_3000 :: float64 where
  "f64_3000 = 0x40A7700000000000"

definition f64_5001 :: float64 where
  "f64_5001 = 0x40B3890000000000"

definition f64_one :: float64 where
  "f64_one = 0x3FF0000000000000"

definition f64_tenth :: float64 where
  "f64_tenth = 0x3FB999999999999A"

definition f64_nine_tenths :: float64 where
  "f64_nine_tenths = 0x3FECCCCCCCCCCCCD"

definition pos_inf :: float64 where
  "pos_inf = 0x7FF0000000000000"

text \<open>The scenario of the specification: a loan of 5000 at 5.5 percent over 12 months is
  applied for, approved, and repaid with 2000 and then 3000.\<close>

definition sample_loan :: Loan where
  "sample_loan = \<lparr>LoanID = ''L1'', ApplicantName = ''Jane Doe'', LoanAmount = f64_5000,
                   TermMonths = 12, InterestRate = rate_5_5, Outstanding = f64_5000,
                   Status = ''APPLIED'', Repayments = []\<rparr>"

definition applied_stub :: stub where
  "applied_stub = stub0\<lparr>world := [''L1'' \<mapsto> sample_loan]\<rparr>"

definition approved_stub :: stub where
  "approved_stub = stub0\<lparr>world := [''L1'' \<mapsto> sample_loan\<lparr>Status := ''APPROVED''\<rparr>]\<rparr>"

definition repaid_loan :: Loan where
  "repaid_loan = sample_loan\<lparr>Status := ''APPROVED'', Outstanding := f64_3000,
                             Repayments := [f64_2000]\<rparr>"

definition repaid_stub :: stub where
  "repaid_stub = stub0\<lparr>world := [''L1'' \<mapsto> repaid_loan]\<rparr>"

definition paid_loan :: Loan where
  "paid_loan = sample_loan\<lparr>Status := ''PAID'', Outstanding := f64_zero,
                           Repayments := [f64_2000, f64_3000]\<rparr>"

definition paid_stub :: stub where
  "paid_stub = stub0\<lparr>world := [''L1'' \<mapsto> paid_loan]\<rparr>"

text \<open>A loan of 1 on which 0.1 is repaid.\<close>

definition one_loan :: Loan where
  "one_loan = \<lparr>LoanID = ''L1'', ApplicantName = ''Jane Doe'', LoanAmount = f64_one,
                TermMonths = 12, InterestRate = rate_5_5, Outstanding = f64_one,
                Status = ''APPLIED'', Repayments = []\<rparr>"

definition one_applied :: stub where
  "one_applied = stub0\<lparr>world := [''L1'' \<mapsto> one_loan]\<rparr>"

definition one_approved :: stub where
  "one_approved = stub0\<lparr>world := [''L1'' \<mapsto> one_loan\<lparr>Status := ''APPROVED''\<rparr>]\<rparr>"

definition drifted_loan :: Loan where
  "drifted_loan = one_loan\<lparr>Status := ''APPROVED'', Outstanding := f64_nine_tenths,
                           Repayments := [f64_tenth]\<rparr>"

definition one_repaid :: stub where
  "one_repaid = stub0\<lparr>world := [''L1'' \<mapsto> drifted_loan]\<rparr>"

text \<open>A second loan, applied for on the ledger on which the loan of 1 has drifted.\<close>

definition second_loan :: Loan where
  "second_loan = sample_loan\<lparr>LoanID := ''L2''\<rparr>"

definition two_stub :: stub where
  "two_stub = stub0\<lparr>world := [''L1'' \<mapsto> drifted_loan, ''L2'' \<mapsto> second_loan]\<rparr>"

text \<open>A loan of \<open>2^54\<close> on which 1 is repaid.\<close>

definition f64_2_54 :: float64 where
  "f64_2_54 = 0x4350000000000000"

definition big_loan :: Loan where
  "big_loan = \<lparr>LoanID = ''L1'', ApplicantName = ''Jane Doe'', LoanAmount = f64_2_54,
                TermMonths = 12, InterestRate = rate_5_5, Outstanding = f64_2_54,
                Status = ''APPROVED'', Repayments = []\<rparr>"

definition big_approved :: stub where
  "big_approved = stub0\<lparr>world := [''L1'' \<mapsto> big_loan]\<rparr>"

definition big_repaid :: stub where
  "big_repaid = stub0\<lparr>world := [''L1'' \<mapsto> big_loan\<lparr>Repayments := [f64_one]\<rparr>]\<rparr>"

section \<open>Facts about float64\<close>

lemma round_bits_le: "round_bits a \<le> 2047 * 2 ^ 52"
  by (simp add: round_bits_def Let_def)

lemma unat_pack_pos: "n \<le> 2047 * 2 ^ 52 \<Longrightarrow> unat (pack False n) = n"
  by (simp add: pack_def unat_of_nat)

lemma sign_pack_pos: "n \<le> 2047 * 2 ^ 52 \<Longrightarrow> \<not> sign_bit (pack False n)"
  by (simp add: sign_bit_def unat_pack_pos)

lemma scaled_pack_pos: "n \<le> 2047 * 2 ^ 52 \<Longrightarrow> 0 \<le> scaled (pack False n)"
  by (simp add: scaled_def sign_pack_pos)

lemma split63: "(u::nat) mod 2 ^ 63 = 2 ^ 52 * (u div 2 ^ 52 mod 2 ^ 11) + u mod 2 ^ 52"
  using mod_mult2_eq [of u "2 ^ 52" "2 ^ 11"] by simp

lemma fields_zero_iff:
  "unat w mod 2 ^ 63 = 0 \<longleftrightarrow> biased_exp w = 0 \<and> fraction w = 0"
  unfolding biased_exp_def fraction_def split63 by simp

lemma magnitude_zero_iff: "magnitude w = 0 \<longleftrightarrow> unat w mod 2 ^ 63 = 0"
  unfolding fields_zero_iff by (simp add: magnitude_def)

lemma scaled_zero_iff: "scaled w = 0 \<longleftrightarrow> unat w mod 2 ^ 63 = 0"
  by (simp add: scaled_def magnitude_zero_iff)

lemma scaled_pos_iff: "0 < scaled w \<longleftrightarrow> \<not> sign_bit w \<and> unat w mod 2 ^ 63 \<noteq> 0"
  using magnitude_zero_iff [of w] by (auto simp add: scaled_def)

lemma scaled_neg_iff: "scaled w < 0 \<longleftrightarrow> sign_bit w \<and> unat w mod 2 ^ 63 \<noteq> 0"
  using magnitude_zero_iff [of w] by (auto simp add: scaled_def)

lemma scaled_zero [simp]: "scaled f64_zero = 0"
  by (simp add: scaled_zero_iff f64_zero_def)

lemma not_nan_zero [simp]: "\<not> is_nan f64_zero"
  by (simp add: is_nan_def f64_zero_def biased_exp_def)

lemma pack_pos_nonpositive:
  assumes "n \<le> 2047 * 2 ^ 52" and "scaled (pack False n) \<le> 0"
  shows "pack False n = 0"
proof -
  have "scaled (pack False n) = 0" using assms scaled_pack_pos [of n] by simp
  then have "n mod 2 ^ 63 = 0" using assms(1) by (simp add: scaled_zero_iff unat_pack_pos)
  then have "n = 0" using assms(1) by simp
  then show ?thesis by (simp add: pack_def)
qed

lemma nan_not_finite: "is_nan w \<Longrightarrow> \<not> is_finite w"
  by (simp add: is_nan_def is_finite_def)

lemma inf_not_finite: "is_inf w \<Longrightarrow> \<not> is_finite w"
  by (simp add: is_inf_def is_finite_def)

lemma scaled_pos_sign: "0 < scaled w \<Longrightarrow> \<not> sign_bit w"
  by (auto simp add: scaled_def split: if_splits)

text \<open>Taking a positive finite amount from a finite balance that covers it gives a
  non-negative pattern.\<close>

lemma f64_sub_nonneg:
  assumes "is_finite x" "is_finite y" "0 < scaled y" "scaled y \<le> scaled x"
  shows "\<exists>n \<le> 2047 * 2 ^ 52. f64_sub x y = pack False n"
proof -
  have ns: "\<not> sign_bit x" "\<not> sign_bit y"
    using assms scaled_pos_sign [of x] scaled_pos_sign [of y] by auto
  have nn: "\<not> is_nan x" "\<not> is_nan y" "\<not> is_inf x" "\<not> is_inf y"
    using assms nan_not_finite inf_not_finite by auto
  show ?thesis
  proof (cases "scaled x - scaled y = 0")
    case True
    then have "f64_sub x y = pack False 0" using ns nn by (simp add: f64_sub_def)
    then show ?thesis by auto
  next
    case False
    then have "f64_sub x y = pack False (round_bits (nat \<bar>scaled x - scaled y\<bar>))"
      using ns nn assms(4) by (simp add: f64_sub_def Let_def)
    then show ?thesis using round_bits_le by blast
  qed
qed

lemma finite_iff: "is_finite w \<longleftrightarrow> \<not> is_nan w \<and> \<not> is_inf w"
proof -
  have "biased_exp w < 2048" by (simp add: biased_exp_def)
  then show ?thesis by (auto simp add: is_finite_def is_nan_def is_inf_def)
qed

lemma quiet_nan_not_finite: "\<not> is_finite quiet_nan"
  by (simp add: is_finite_def quiet_nan_def biased_exp_def)

lemma f64_sub_finite_left:
  assumes "is_finite (f64_sub x y)" shows "is_finite x"
proof (rule ccontr)
  assume nf: "\<not> is_finite x"
  then have "is_nan x \<or> is_inf x" by (simp add: finite_iff)
  then have "f64_sub x y = quiet_nan \<or> f64_sub x y = x"
    by (auto simp add: f64_sub_def)
  then show False using assms nf quiet_nan_not_finite by auto
qed

lemma repay_difference:
  assumes "is_finite amount" "is_finite (f64_sub out amount)"
    "\<not> f64_le amount f64_zero" "\<not> f64_gt amount out"
  shows "\<exists>n \<le> 2047 * 2 ^ 52. f64_sub out amount = pack False n"
proof -
  have fo: "is_finite out" using assms(2) by (rule f64_sub_finite_left)
  have nn: "\<not> is_nan amount" "\<not> is_nan out" using assms(1) fo by (simp_all add: finite_iff)
  have "0 < scaled amount" using assms(3) nn by (simp add: f64_le_def)
  moreover have "scaled amount \<le> scaled out" using assms(4) nn by (simp add: f64_gt_def f64_lt_def)
  ultimately show ?thesis using f64_sub_nonneg [OF fo assms(1)] by simp
qed

lemma bitlen_numeral [simp]:
  "bitlen (numeral (Num.Bit0 n)) = Suc (bitlen (numeral n))"
  "bitlen (numeral (Num.Bit1 n)) = Suc (bitlen (numeral n))"
  "bitlen (numeral Num.One) = 1" "bitlen 0 = 0" "bitlen 1 = 1" "bitlen (Suc 0) = 1"
  by (subst bitlen.simps, simp)+

lemma f64_gt_zero_iff:
  "f64_gt w f64_zero \<longleftrightarrow> \<not> is_nan w \<and> \<not> sign_bit w \<and> unat w mod 2 ^ 63 \<noteq> 0"
  by (auto simp add: f64_gt_def f64_lt_def scaled_pos_iff)

lemma f64_le_zero_iff:
  "f64_le w f64_zero \<longleftrightarrow> \<not> is_nan w \<and> (sign_bit w \<or> unat w mod 2 ^ 63 = 0)"
  using scaled_pos_iff [of w] by (auto simp add: f64_le_def)

lemma f64_lt_zero_iff:
  "f64_lt w f64_zero \<longleftrightarrow> \<not> is_nan w \<and> sign_bit w \<and> unat w mod 2 ^ 63 \<noteq> 0"
  by (auto simp add: f64_lt_def scaled_neg_iff)

lemma f64_ge_zero_iff:
  "f64_le f64_zero w \<longleftrightarrow> \<not> is_nan w \<and> (\<not> sign_bit w \<or> unat w mod 2 ^ 63 = 0)"
  using scaled_neg_iff [of w] by (auto simp add: f64_le_def)

text \<open>
  Scaling: multiplying a magnitude of at least 53 bits by a power of two adds to the
  exponent field and leaves the rounding decision alone. Two positive normal numbers can so
  be subtracted at the exponent of the smaller one.
\<close>

lemma bitlen_double: "0 < n \<Longrightarrow> bitlen (2 * n) = Suc (bitlen n)"
  by (subst bitlen.simps) simp

lemma bitlen_scale: "0 < c \<Longrightarrow> bitlen (c * 2 ^ m) = bitlen c + m"
proof (induction m)
  case 0
  then show ?case by simp
next
  case (Suc m)
  have "bitlen (c * 2 ^ Suc m) = bitlen (2 * (c * 2 ^ m))" by (simp add: mult.commute mult.left_commute)
  also have "\<dots> = Suc (bitlen (c * 2 ^ m))" using Suc.prems by (intro bitlen_double) simp
  finally show ?case using Suc by simp
qed

lemma bitlen_zero: "bitlen 0 = 0"
  by (subst bitlen.simps) simp

lemma round_bits_scale:
  assumes "53 \<le> bitlen c" and "round_bits c + m * 2 ^ 52 < 2047 * 2 ^ 52"
  shows "round_bits (c * 2 ^ m) = round_bits c + m * 2 ^ 52"
proof -
  have c: "0 < c" using assms(1) bitlen_zero by (cases "c = 0") auto
  define sh where "sh = bitlen c - 53"
  have sh: "bitlen (c * 2 ^ m) - 53 = sh + m"
    using assms(1) bitlen_scale [OF c, of m] by (simp add: sh_def)
  have q: "c * 2 ^ m div 2 ^ (sh + m) = c div 2 ^ sh"
    by (simp add: power_add)
  have r: "c * 2 ^ m mod 2 ^ (sh + m) = (c mod 2 ^ sh) * 2 ^ m"
    by (simp add: power_add)
  define q' where "q' = (if 2 ^ sh < 2 * (c mod 2 ^ sh) \<or> (2 * (c mod 2 ^ sh) = 2 ^ sh \<and> odd (c div 2 ^ sh))
     then c div 2 ^ sh + 1 else c div 2 ^ sh)"
  have t1: "(2::nat) ^ (sh + m) < 2 * ((c mod 2 ^ sh) * 2 ^ m) \<longleftrightarrow> 2 ^ sh < 2 * (c mod 2 ^ sh)"
    by (simp add: power_add)
  have t2: "2 * ((c mod 2 ^ sh) * 2 ^ m) = (2::nat) ^ (sh + m) \<longleftrightarrow> 2 * (c mod 2 ^ sh) = 2 ^ sh"
    by (simp add: power_add)
  have small: "round_bits c = (if 2047 * 2 ^ 52 \<le> sh * 2 ^ 52 + q' then 2047 * 2 ^ 52 else sh * 2 ^ 52 + q')"
    unfolding round_bits_def Let_def sh_def [symmetric] q'_def by simp
  have big: "round_bits (c * 2 ^ m) =
     (if 2047 * 2 ^ 52 \<le> (sh + m) * 2 ^ 52 + q' then 2047 * 2 ^ 52 else (sh + m) * 2 ^ 52 + q')"
    unfolding round_bits_def Let_def sh q r t1 t2 q'_def by simp
  have "sh * 2 ^ 52 + q' + m * 2 ^ 52 < 2047 * 2 ^ 52"
    using assms(2) unfolding small by (auto split: if_splits)
  then show ?thesis unfolding small big by (auto simp add: algebra_simps)
qed

lemma magnitude_split:
  assumes "biased_exp w = Suc m + d"
  shows "magnitude w = (2 ^ 52 + fraction w) * 2 ^ d * 2 ^ m"
  using assms by (simp add: magnitude_def power_add mult.assoc mult.commute)

lemma scaled_split:
  assumes "\<not> sign_bit w" "biased_exp w = Suc m + d"
  shows "scaled w = int ((2 ^ 52 + fraction w) * 2 ^ d) * 2 ^ m"
  using assms(1) magnitude_split [OF assms(2)] by (simp add: scaled_def)

lemma f64_sub_normal:
  assumes "\<not> sign_bit x" "\<not> sign_bit y"
    and "biased_exp x = Suc m + d" "biased_exp y = Suc m + 0" "biased_exp x < 2047"
    and "(2 ^ 52 + fraction x) * 2 ^ d = c + (2 ^ 52 + fraction y)"
    and "53 \<le> bitlen c" "round_bits c + m * 2 ^ 52 < 2047 * 2 ^ 52"
  shows "f64_sub x y = pack False (round_bits c + m * 2 ^ 52)"
    and "scaled x - scaled y = int c * 2 ^ m"
proof -
  have sx: "scaled x = int (c + (2 ^ 52 + fraction y)) * 2 ^ m"
    unfolding scaled_split [OF assms(1,3)] assms(6) by (rule refl)
  have sy: "scaled y = int (2 ^ 52 + fraction y) * 2 ^ m"
    unfolding scaled_split [OF assms(2,4)] by simp
  show d: "scaled x - scaled y = int c * 2 ^ m"
    unfolding sx sy by (simp add: algebra_simps)
  have c: "0 < c" using assms(7) bitlen_zero by (cases "c = 0") auto
  have neg: "\<not> int c * 2 ^ m < 0" by (simp add: not_less)
  have fin: "\<not> is_nan x" "\<not> is_nan y" "\<not> is_inf x" "\<not> is_inf y"
    using assms(3,4,5) by (auto simp add: is_nan_def is_inf_def)
  have "f64_sub x y = pack False (round_bits (c * 2 ^ m))"
    using fin c neg by (simp add: f64_sub_def d Let_def nat_mult_distrib nat_power_eq)
  then show "f64_sub x y = pack False (round_bits c + m * 2 ^ 52)"
    using round_bits_scale [OF assms(7,8)] by simp
qed

lemma f64_sub_self:
  assumes "is_finite x" shows "f64_sub x x = f64_zero"
  using assms by (simp add: f64_sub_def finite_iff pack_def f64_zero_def)

section \<open>Evaluating the samples\<close>

lemmas field_defs = sign_bit_def biased_exp_def fraction_def

lemmas zero_tests = f64_gt_zero_iff f64_le_zero_iff f64_lt_zero_iff f64_ge_zero_iff
  is_nan_def is_inf_def is_finite_def sign_bit_def biased_exp_def fraction_def

lemmas amount_defs = rate_5_5_def f64_5000_def f64_2000_def f64_3000_def f64_5001_def
  f64_one_def f64_tenth_def f64_nine_tenths_def pos_inf_def quiet_nan_def

lemmas sample_defs = stub0_def sample_loan_def applied_stub_def approved_stub_def
  repaid_loan_def repaid_stub_def paid_loan_def paid_stub_def

lemmas one_defs = stub0_def one_loan_def one_applied_def one_approved_def drifted_loan_def
  one_repaid_def

lemmas tx_defs = ApplyForLoan_def ApproveLoan_def MakeRepayment_def CheckLoanBalance_def
  GetState_def PutState_def Marshal_def encodable_def Let_def

text \<open>The amounts of the scenario are what their names say, in units of \<open>2^-1074\<close>.\<close>

lemma scaled_amounts:
  "scaled f64_5000 = 5000 * 2 ^ 1074"
  "scaled f64_2000 = 2000 * 2 ^ 1074"
  "scaled f64_3000 = 3000 * 2 ^ 1074"
  "scaled f64_5001 = 5001 * 2 ^ 1074"
  using scaled_split [of f64_5000 1034 0] scaled_split [of f64_2000 1032 0]
    scaled_split [of f64_3000 1033 0] scaled_split [of f64_5001 1034 0]
  by (simp_all add: amount_defs field_defs)

lemma amounts_finite:
  "is_finite f64_5000" "is_finite f64_2000" "is_finite f64_3000" "is_finite f64_5001"
  "is_finite f64_zero" "is_finite rate_5_5"
  "is_finite f64_one" "is_finite f64_tenth" "is_finite f64_nine_tenths"
  "\<not> is_finite pos_inf" "\<not> is_finite quiet_nan"
  by (simp_all add: amount_defs f64_zero_def is_finite_def biased_exp_def)

lemma amounts_positive:
  "\<not> f64_le f64_5000 f64_zero" "\<not> f64_le f64_2000 f64_zero" "\<not> f64_le f64_3000 f64_zero"
  "\<not> f64_le f64_5001 f64_zero" "\<not> f64_le f64_one f64_zero" "\<not> f64_le f64_tenth f64_zero"
  "\<not> f64_le f64_nine_tenths f64_zero" "\<not> f64_le pos_inf f64_zero"
  "\<not> f64_le quiet_nan f64_zero" "\<not> f64_lt rate_5_5 f64_zero"
  by (simp_all add: zero_tests) (simp_all add: amount_defs)

lemma amount_tests:
  "\<not> f64_gt f64_2000 f64_5000" "\<not> f64_gt f64_3000 f64_3000" "f64_gt f64_5001 f64_5000"
  "f64_le f64_2000 f64_5000" "f64_le f64_3000 f64_3000"
  "f64_lt f64_zero f64_2000" "f64_lt f64_zero f64_3000"
  by (simp_all add: f64_gt_def f64_lt_def f64_le_def scaled_amounts is_nan_def)
     (simp_all add: amount_defs f64_zero_def field_defs)

lemma sub_5000_2000: "f64_sub f64_5000 f64_2000 = f64_3000"
proof -
  have r: "round_bits 13194139533312000 = 0x0027700000000000"
    by (simp add: round_bits_def Let_def)
  have a: "\<not> sign_bit f64_5000" "\<not> sign_bit f64_2000"
    "biased_exp f64_5000 = Suc 1032 + 2" "biased_exp f64_2000 = Suc 1032 + 0"
    "biased_exp f64_5000 < 2047"
    "(2 ^ 52 + fraction f64_5000) * 2 ^ 2 = 13194139533312000 + (2 ^ 52 + fraction f64_2000)"
    "53 \<le> bitlen 13194139533312000"
    "round_bits 13194139533312000 + 1032 * 2 ^ 52 < 2047 * 2 ^ 52"
    by (simp_all add: amount_defs field_defs r)
  show ?thesis unfolding f64_sub_normal(1) [OF a] r by (simp add: pack_def f64_3000_def)
qed

lemma sub_3000_3000: "f64_sub f64_3000 f64_3000 = f64_zero"
  by (rule f64_sub_self) (rule amounts_finite)

lemma exact_samples: "exact_sub f64_5000 f64_2000" "exact_sub f64_3000 f64_3000"
  by (simp_all add: exact_sub_def sub_5000_2000 sub_3000_3000 scaled_amounts)

lemma apply_sample:
  "ApplyForLoan stub0 ''L1'' ''Jane Doe'' f64_5000 12 rate_5_5 = (None, applied_stub)"
  using amounts_finite amounts_positive by (simp add: tx_defs sample_defs)

lemma approve_sample: "ApproveLoan applied_stub ''L1'' ''APPROVED'' = (None, approved_stub)"
  using amounts_finite by (simp add: tx_defs sample_defs)

lemma repay_2000_sample: "MakeRepayment approved_stub ''L1'' f64_2000 = (None, repaid_stub)"
  using amounts_finite amounts_positive amount_tests sub_5000_2000
  by (simp add: tx_defs sample_defs)

lemma repay_3000_sample: "MakeRepayment repaid_stub ''L1'' f64_3000 = (None, paid_stub)"
  using amounts_finite amounts_positive amount_tests sub_3000_3000
  by (simp add: tx_defs sample_defs) (simp add: f64_le_def)

lemma zero_le_zero: "f64_le f64_zero f64_zero"
  by (simp add: f64_le_def)

lemma rejected_repayments:
  "MakeRepayment approved_stub ''L1'' f64_zero = (Some NonPositiveRepayment, approved_stub)"
  "MakeRepayment approved_stub ''L2'' f64_2000 = (Some LoanDoesNotExist, approved_stub)"
  "MakeRepayment applied_stub ''L1'' f64_2000 = (Some NotApproved, applied_stub)"
  "MakeRepayment approved_stub ''L1'' f64_5001 = (Some ExceedsOutstanding, approved_stub)"
  using zero_le_zero amounts_positive amount_tests by (simp_all add: tx_defs sample_defs)

lemma rejected_applications:
  "ApplyForLoan stub0 ''L1'' ''Jane Doe'' f64_zero 12 rate_5_5
     = (Some NonPositiveLoanAmount, stub0)"
  "ApplyForLoan stub0 ''L1'' ''Jane Doe'' pos_inf 12 rate_5_5 = (Some MarshalFailed, stub0)"
  "ApplyForLoan stub0 ''L1'' ''Jane Doe'' quiet_nan 12 rate_5_5 = (Some MarshalFailed, stub0)"
  "ApplyForLoan applied_stub ''L1'' ''Jane Doe'' f64_zero 12 rate_5_5
     = (Some NonPositiveLoanAmount, applied_stub)"
  using zero_le_zero amounts_positive amounts_finite by (simp_all add: tx_defs sample_defs)

lemma reachable_approved_stub: "reachable approved_stub"
proof -
  have "reachable stub0" by (rule reachable.genesis) (simp add: stub0_def)
  then have "reachable applied_stub"
    by (rule reachable.accepted [where t = "Apply ''L1'' ''Jane Doe'' f64_5000 12 rate_5_5"])
       (simp add: apply_sample)
  then show ?thesis
    by (rule reachable.accepted [where t = "Decide ''L1'' ''APPROVED''"]) (simp add: approve_sample)
qed

lemma reachable_repaid_stub: "reachable repaid_stub"
  using reachable_approved_stub
  by (rule reachable.accepted [where t = "Repay ''L1'' f64_2000"]) (simp add: repay_2000_sample)

lemma reachable_paid_stub: "reachable paid_stub"
  using reachable_repaid_stub
  by (rule reachable.accepted [where t = "Repay ''L1'' f64_3000"]) (simp add: repay_3000_sample)

lemma reachable_exact_paid_stub: "reachable_exact_on ''L1'' paid_stub"
proof -
  have "reachable_exact_on ''L1'' stub0"
    by (rule reachable_exact_on.genesis_exact) (simp add: stub0_def)
  then have "reachable_exact_on ''L1'' applied_stub"
    by (rule reachable_exact_on.accepted_exact
          [where t = "Apply ''L1'' ''Jane Doe'' f64_5000 12 rate_5_5"])
       (simp_all add: apply_sample)
  then have "reachable_exact_on ''L1'' approved_stub"
    by (rule reachable_exact_on.accepted_exact [where t = "Decide ''L1'' ''APPROVED''"])
       (simp_all add: approve_sample)
  then have "reachable_exact_on ''L1'' repaid_stub"
    by (rule reachable_exact_on.accepted_exact [where t = "Repay ''L1'' f64_2000"])
       (simp add: exact_samples sample_defs, simp add: repay_2000_sample)
  then show ?thesis
    by (rule reachable_exact_on.accepted_exact [where t = "Repay ''L1'' f64_3000"])
       (simp add: exact_samples sample_defs, simp add: repay_3000_sample)
qed

text \<open>The loan of 1: the float64 difference \<open>1 - 0.1\<close> is rounded up.\<close>

lemma round_sample: "round_bits 64851834634135142 = 0x004CCCCCCCCCCCCD"
  by (simp add: round_bits_def Let_def)

lemma sub_one_tenth:
  "f64_sub f64_one f64_tenth = f64_nine_tenths"
  "scaled f64_one - scaled f64_tenth = 64851834634135142 * 2 ^ 1018"
proof -
  have a: "\<not> sign_bit f64_one" "\<not> sign_bit f64_tenth"
    "biased_exp f64_one = Suc 1018 + 4" "biased_exp f64_tenth = Suc 1018 + 0"
    "biased_exp f64_one < 2047"
    "(2 ^ 52 + fraction f64_one) * 2 ^ 4 = 64851834634135142 + (2 ^ 52 + fraction f64_tenth)"
    "53 \<le> bitlen 64851834634135142"
    "round_bits 64851834634135142 + 1018 * 2 ^ 52 < 2047 * 2 ^ 52"
    by (simp_all add: f64_one_def f64_tenth_def field_defs round_sample)
  show "f64_sub f64_one f64_tenth = f64_nine_tenths"
    unfolding f64_sub_normal(1) [OF a] round_sample by (simp add: pack_def f64_nine_tenths_def)
  show "scaled f64_one - scaled f64_tenth = 64851834634135142 * 2 ^ 1018"
    using f64_sub_normal(2) [OF a] by simp
qed

lemma scaled_nine_tenths: "scaled f64_nine_tenths = 64851834634135144 * 2 ^ 1018"
  using scaled_split [of f64_nine_tenths 1018 3] by (simp add: f64_nine_tenths_def field_defs)

lemma one_tenth_inexact: "\<not> exact_sub f64_one f64_tenth"
  unfolding exact_sub_def sub_one_tenth scaled_nine_tenths by simp

lemma tenth_covered: "\<not> f64_gt f64_tenth f64_one"
  using sub_one_tenth(2) by (simp add: f64_gt_def f64_lt_def)

lemma repay_tenth: "MakeRepayment one_approved ''L1'' f64_tenth = (None, one_repaid)"
  using amounts_finite amounts_positive tenth_covered sub_one_tenth(1)
  by (simp add: tx_defs one_defs)

lemma apply_one:
  "ApplyForLoan stub0 ''L1'' ''Jane Doe'' f64_one 12 rate_5_5 = (None, one_applied)"
  using amounts_finite amounts_positive by (simp add: tx_defs one_defs)

lemma approve_one: "ApproveLoan one_applied ''L1'' ''APPROVED'' = (None, one_approved)"
  using amounts_finite by (simp add: tx_defs one_defs)

lemma apply_second:
  "ApplyForLoan one_repaid ''L2'' ''Jane Doe'' f64_5000 12 rate_5_5 = (None, two_stub)"
  using amounts_finite amounts_positive
  by (simp add: tx_defs one_defs sample_defs second_loan_def two_stub_def)

lemma reachable_exact_two_stub: "reachable_exact_on ''L2'' two_stub"
proof -
  have "reachable_exact_on ''L2'' stub0"
    by (rule reachable_exact_on.genesis_exact) (simp add: stub0_def)
  then have "reachable_exact_on ''L2'' one_applied"
    by (rule reachable_exact_on.accepted_exact
          [where t = "Apply ''L1'' ''Jane Doe'' f64_one 12 rate_5_5"])
       (simp_all add: apply_one)
  then have "reachable_exact_on ''L2'' one_approved"
    by (rule reachable_exact_on.accepted_exact [where t = "Decide ''L1'' ''APPROVED''"])
       (simp_all add: approve_one)
  then have "reachable_exact_on ''L2'' one_repaid"
    by (rule reachable_exact_on.accepted_exact [where t = "Repay ''L1'' f64_tenth"])
       (simp_all add: repay_tenth)
  then show ?thesis
    by (rule reachable_exact_on.accepted_exact
          [where t = "Apply ''L2'' ''Jane Doe'' f64_5000 12 rate_5_5"])
       (simp_all add: apply_second)
qed

text \<open>The loan of \<open>2^54\<close>: the float64 difference \<open>2^54 - 1\<close> is a tie between
  \<open>2^54 - 2\<close> and \<open>2^54\<close> and is rounded to \<open>2^54\<close>.\<close>

lemma sub_big:
  "f64_sub f64_2_54 f64_one = f64_2_54"
  "scaled f64_2_54 - scaled f64_one = 81129638414606677192189377773568 * 2 ^ 1022"
proof -
  have r: "round_bits 81129638414606677192189377773568 = 0x0370000000000000"
    by (simp add: round_bits_def Let_def)
  have a: "\<not> sign_bit f64_2_54" "\<not> sign_bit f64_one"
    "biased_exp f64_2_54 = Suc 1022 + 54" "biased_exp f64_one = Suc 1022 + 0"
    "biased_exp f64_2_54 < 2047"
    "(2 ^ 52 + fraction f64_2_54) * 2 ^ 54
       = 81129638414606677192189377773568 + (2 ^ 52 + fraction f64_one)"
    "53 \<le> bitlen 81129638414606677192189377773568"
    "round_bits 81129638414606677192189377773568 + 1022 * 2 ^ 52 < 2047 * 2 ^ 52"
    by (simp_all add: f64_2_54_def f64_one_def field_defs r)
  show "f64_sub f64_2_54 f64_one = f64_2_54"
    unfolding f64_sub_normal(1) [OF a] r by (simp add: pack_def f64_2_54_def)
  show "scaled f64_2_54 - scaled f64_one = 81129638414606677192189377773568 * 2 ^ 1022"
    using f64_sub_normal(2) [OF a] by simp
qed

lemma big_tests:
  "f64_lt f64_zero f64_one" "f64_le f64_one f64_2_54" "\<not> f64_gt f64_one f64_2_54"
  "is_finite f64_2_54" "\<not> f64_le f64_2_54 f64_zero"
proof -
  show "f64_lt f64_zero f64_one"
    using f64_gt_zero_iff [of f64_one] by (simp add: f64_gt_def f64_one_def field_defs is_nan_def)
  have n: "\<not> is_nan f64_one" "\<not> is_nan f64_2_54"
    by (simp_all add: is_nan_def f64_one_def f64_2_54_def field_defs)
  show "f64_le f64_one f64_2_54" "\<not> f64_gt f64_one f64_2_54"
    using sub_big(2) n by (simp_all add: f64_le_def f64_gt_def f64_lt_def)
  show "is_finite f64_2_54" by (simp add: is_finite_def f64_2_54_def field_defs)
  show "\<not> f64_le f64_2_54 f64_zero" by (simp add: zero_tests) (simp add: f64_2_54_def)
qed

lemma repay_big: "MakeRepayment big_approved ''L1'' f64_one = (None, big_repaid)"
  using amounts_finite amounts_positive big_tests sub_big(1)
  by (simp add: tx_defs stub0_def big_loan_def big_approved_def big_repaid_def)

section \<open>What an accepted transaction did\<close>

lemma ApplyForLoan_success:
  assumes "ApplyForLoan st loanID applicantName loanAmount termMonths interestRate = (None, st')"
  shows "world st loanID = None \<and> \<not> f64_le loanAmount f64_zero \<and> is_finite loanAmount
    \<and> is_finite interestRate
    \<and> st' = st\<lparr>world := (world st)(loanID \<mapsto>
           \<lparr>LoanID = loanID, ApplicantName = applicantName, LoanAmount = loanAmount,
            TermMonths = termMonths, InterestRate = interestRate, Outstanding = loanAmount,
            Status = ''APPLIED'', Repayments = []\<rparr>)\<rparr>"
  using assms
  by (auto simp add: ApplyForLoan_def GetState_def PutState_def Marshal_def Let_def encodable_def
      split: option.splits if_splits)

lemma ApproveLoan_success:
  assumes "ApproveLoan st loanID status = (None, st')"
  obtains loan where "world st loanID = Some loan" "Status loan = ''APPLIED''"
    "status = ''APPROVED'' \<or> status = ''REJECTED''"
    "st' = st\<lparr>world := (world st)(loanID \<mapsto> loan\<lparr>Status := status\<rparr>)\<rparr>"
  using assms
  by (auto simp add: ApproveLoan_def GetState_def PutState_def Marshal_def
      split: option.splits if_splits)

lemma MakeRepayment_success:
  assumes "MakeRepayment st loanID amount = (None, st')"
  obtains loan where "world st loanID = Some loan" "Status loan = ''APPROVED''"
    "\<not> f64_le amount f64_zero" "\<not> f64_gt amount (Outstanding loan)"
    "is_finite amount" "is_finite (f64_sub (Outstanding loan) amount)"
    "st' = st\<lparr>world := (world st)(loanID \<mapsto>
        (if f64_le (f64_sub (Outstanding loan) amount) f64_zero
         then loan\<lparr>Outstanding := f64_sub (Outstanding loan) amount,
                  Repayments := Repayments loan @ [amount], Status := ''PAID''\<rparr>
         else loan\<lparr>Outstanding := f64_sub (Outstanding loan) amount,
                  Repayments := Repayments loan @ [amount]\<rparr>))\<rparr>"
  using assms
  by (auto simp add: MakeRepayment_def GetState_def PutState_def Marshal_def Let_def encodable_def
      split: option.splits if_splits)

section \<open>Invariants of reachable ledgers\<close>

lemma nonneg_le_zero_iff_eq:
  assumes "n \<le> 2047 * 2 ^ 52"
  shows "f64_le (pack False n) f64_zero \<longleftrightarrow> f64_eq (pack False n) f64_zero"
  using scaled_pack_pos [OF assms] by (auto simp add: f64_le_def f64_eq_def)

lemma positive_not_zero:
  assumes "\<not> f64_le x f64_zero" "is_finite x" shows "\<not> f64_eq x f64_zero"
  using assms by (auto simp add: f64_le_def f64_eq_def finite_iff)

lemma reachable_inv:
  assumes "reachable st" and "world st k = Some l"
  shows "encodable l \<and> (f64_eq (Outstanding l) f64_zero \<longleftrightarrow> Status l = ''PAID'')"
  using assms
proof (induction arbitrary: k l rule: reachable.induct)
  case (genesis st)
  then show ?case by simp
next
  case (accepted st t st')
  show ?case
  proof (cases t)
    case (Apply loanID applicantName loanAmount termMonths interestRate)
    then have "ApplyForLoan st loanID applicantName loanAmount termMonths interestRate = (None, st')"
      using accepted.hyps(2) by simp
    from ApplyForLoan_success [OF this]
    have f: "\<not> f64_le loanAmount f64_zero" "is_finite loanAmount" "is_finite interestRate"
      and s: "st' = st\<lparr>world := (world st)(loanID \<mapsto>
           \<lparr>LoanID = loanID, ApplicantName = applicantName, LoanAmount = loanAmount,
            TermMonths = termMonths, InterestRate = interestRate, Outstanding = loanAmount,
            Status = ''APPLIED'', Repayments = []\<rparr>)\<rparr>"
      by simp_all
    show ?thesis
    proof (cases "k = loanID")
      case True
      then show ?thesis using accepted.prems s f positive_not_zero [OF f(1,2)]
        by (auto simp add: encodable_def)
    next
      case False
      then show ?thesis using accepted.prems s accepted.IH [of k l] by simp
    qed
  next
    case (Decide loanID status)
    then have "ApproveLoan st loanID status = (None, st')" using accepted.hyps(2) by simp
    then obtain loan where o: "world st loanID = Some loan" "Status loan = ''APPLIED''"
      "status = ''APPROVED'' \<or> status = ''REJECTED''"
      "st' = st\<lparr>world := (world st)(loanID \<mapsto> loan\<lparr>Status := status\<rparr>)\<rparr>"
      by (rule ApproveLoan_success)
    show ?thesis
    proof (cases "k = loanID")
      case True
      then show ?thesis using accepted.prems o accepted.IH [OF o(1)]
        by (auto simp add: encodable_def)
    next
      case False
      then show ?thesis using accepted.prems o accepted.IH [of k l] by simp
    qed
  next
    case (Repay loanID amount)
    then have "MakeRepayment st loanID amount = (None, st')" using accepted.hyps(2) by simp
    then obtain loan where o: "world st loanID = Some loan" "Status loan = ''APPROVED''"
      and f: "is_finite amount" "is_finite (f64_sub (Outstanding loan) amount)"
        "\<not> f64_le amount f64_zero" "\<not> f64_gt amount (Outstanding loan)"
      and s: "st' = st\<lparr>world := (world st)(loanID \<mapsto>
        (if f64_le (f64_sub (Outstanding loan) amount) f64_zero
         then loan\<lparr>Outstanding := f64_sub (Outstanding loan) amount,
                  Repayments := Repayments loan @ [amount], Status := ''PAID''\<rparr>
         else loan\<lparr>Outstanding := f64_sub (Outstanding loan) amount,
                  Repayments := Repayments loan @ [amount]\<rparr>))\<rparr>"
      by (rule MakeRepayment_success)
    show ?thesis
    proof (cases "k = loanID")
      case True
      obtain n where n: "n \<le> 2047 * 2 ^ 52" "f64_sub (Outstanding loan) amount = pack False n"
        using repay_difference [OF f] by auto
      have e: "encodable loan" using accepted.IH [OF o(1)] by simp
      show ?thesis using True accepted.prems s o(2) f(1,2) e nonneg_le_zero_iff_eq [OF n(1)] n(2)
        by (auto simp add: encodable_def)
    next
      case False
      then show ?thesis using accepted.prems s accepted.IH [of k l] by simp
    qed
  qed
qed

lemma total_repaid_snoc: "total_repaid (rs @ [a]) = total_repaid rs + scaled a"
  by (simp add: total_repaid_def)

lemma apply_balanced:
  assumes "ApplyForLoan st loanID applicantName loanAmount termMonths interestRate = (None, st')"
    and "world st' loanID = Some new"
  shows "balanced new"
  using ApplyForLoan_success [OF assms(1)] assms(2)
  by (auto simp add: balanced_def total_repaid_def)

lemma decide_balanced:
  assumes "ApproveLoan st loanID status = (None, st')"
    and "world st loanID = Some old" and "world st' loanID = Some new"
  shows "balanced new = balanced old"
proof -
  from assms(1) obtain loan where "world st loanID = Some loan"
    "st' = st\<lparr>world := (world st)(loanID \<mapsto> loan\<lparr>Status := status\<rparr>)\<rparr>"
    by (rule ApproveLoan_success)
  then show ?thesis using assms(2,3) by (auto simp add: balanced_def)
qed

lemma repay_balanced:
  assumes "MakeRepayment st loanID amount = (None, st')"
    and "world st loanID = Some old" and "balanced old" and "world st' loanID = Some new"
  shows "balanced new = exact_sub (Outstanding old) amount"
proof -
  from assms(1) obtain loan where "world st loanID = Some loan"
    and "st' = st\<lparr>world := (world st)(loanID \<mapsto>
          (if f64_le (f64_sub (Outstanding loan) amount) f64_zero
           then loan\<lparr>Outstanding := f64_sub (Outstanding loan) amount,
                    Repayments := Repayments loan @ [amount], Status := ''PAID''\<rparr>
           else loan\<lparr>Outstanding := f64_sub (Outstanding loan) amount,
                    Repayments := Repayments loan @ [amount]\<rparr>))\<rparr>"
    by (rule MakeRepayment_success)
  then show ?thesis using assms(2,3,4)
    by (auto simp add: balanced_def exact_sub_def total_repaid_snoc split: if_splits)
qed

lemma submit_other_key:
  assumes "submit t st = (None, st')" and "tx_key t \<noteq> k"
  shows "world st' k = world st k"
proof (cases t)
  case (Apply loanID applicantName loanAmount termMonths interestRate)
  then have "ApplyForLoan st loanID applicantName loanAmount termMonths interestRate = (None, st')"
    using assms(1) by simp
  from ApplyForLoan_success [OF this] show ?thesis using assms(2) Apply by auto
next
  case (Decide loanID status)
  then have "ApproveLoan st loanID status = (None, st')" using assms(1) by simp
  then obtain loan where
    "st' = st\<lparr>world := (world st)(loanID \<mapsto> loan\<lparr>Status := status\<rparr>)\<rparr>"
    by (rule ApproveLoan_success)
  then show ?thesis using assms(2) Decide by auto
next
  case (Repay loanID amount)
  then have "MakeRepayment st loanID amount = (None, st')" using assms(1) by simp
  then obtain upd where "st' = st\<lparr>world := (world st)(loanID \<mapsto> upd)\<rparr>"
    by (rule MakeRepayment_success) blast
  then show ?thesis using assms(2) Repay by auto
qed

lemma reachable_exact_on_balanced:
  assumes "reachable_exact_on k st" and "world st k = Some l"
  shows "balanced l"
  using assms
proof (induction arbitrary: l rule: reachable_exact_on.induct)
  case (genesis_exact st k)
  then show ?case by simp
next
  case (accepted_exact k st t st')
  show ?case
  proof (cases "tx_key t = k")
    case False
    then have "world st' k = world st k" using accepted_exact.hyps(3) by (rule submit_other_key [rotated])
    then show ?thesis using accepted_exact.prems accepted_exact.IH by simp
  next
    case True
    show ?thesis
    proof (cases t)
      case (Apply loanID applicantName loanAmount termMonths interestRate)
      then show ?thesis using True accepted_exact.hyps(3) accepted_exact.prems apply_balanced
        by auto
    next
      case (Decide loanID status)
      then have a: "ApproveLoan st k status = (None, st')"
        using True accepted_exact.hyps(3) by simp
      then obtain old where o: "world st k = Some old" by (rule ApproveLoan_success)
      show ?thesis
        using decide_balanced [OF a o accepted_exact.prems] accepted_exact.IH [OF o] by simp
    next
      case (Repay loanID amount)
      then have a: "MakeRepayment st k amount = (None, st')"
        using True accepted_exact.hyps(3) by simp
      then obtain old where o: "world st k = Some old" by (rule MakeRepayment_success)
      have "exact_sub (Outstanding old) amount"
        using accepted_exact.hyps(2) Repay True o by simp
      then show ?thesis
        using repay_balanced [OF a o accepted_exact.IH [OF o] accepted_exact.prems] by simp
    qed
  qed
qed

section \<open>The books of a loan\<close>

text \<open>
  C1, as the specification states it, fails on the code: the amounts are float64 and
  \<open>MakeRepayment\<close> stores the rounded difference. A loan of 1 is applied for and approved,
  and 0.1 is repaid: all three transactions are accepted, the stored balance is the float64
  0.9, which lies \<open>2^-55\<close> above \<open>1 - 0.1\<close>, and the repayments and the balance no
  longer add up to the principal.
\<close>

theorem books_drift_counterexample:
  "submit (Apply ''L1'' ''Jane Doe'' f64_one 12 rate_5_5) stub0 = (None, one_applied)
   \<and> submit (Decide ''L1'' ''APPROVED'') one_applied = (None, one_approved)
   \<and> submit (Repay ''L1'' f64_tenth) one_approved = (None, one_repaid)
   \<and> world one_repaid ''L1'' = Some drifted_loan
   \<and> total_repaid (Repayments drifted_loan) + scaled (Outstanding drifted_loan)
       = scaled (LoanAmount drifted_loan) + 2 * 2 ^ 1018
   \<and> \<not> balanced drifted_loan"
proof -
  have 1: "submit (Apply ''L1'' ''Jane Doe'' f64_one 12 rate_5_5) stub0 = (None, one_applied)"
    using amounts_finite amounts_positive by (simp add: tx_defs one_defs)
  have 2: "submit (Decide ''L1'' ''APPROVED'') one_applied = (None, one_approved)"
    using amounts_finite by (simp add: tx_defs one_defs)
  have 3: "submit (Repay ''L1'' f64_tenth) one_approved = (None, one_repaid)"
    by (simp add: repay_tenth)
  have 4: "world one_repaid ''L1'' = Some drifted_loan"
    by (simp add: one_repaid_def)
  have "scaled f64_tenth + scaled f64_nine_tenths = scaled f64_one + 2 * 2 ^ 1018"
    using sub_one_tenth(2) scaled_nine_tenths by simp
  then have 5: "total_repaid (Repayments drifted_loan) + scaled (Outstanding drifted_loan)
       = scaled (LoanAmount drifted_loan) + 2 * 2 ^ 1018"
    by (simp add: total_repaid_def drifted_loan_def one_loan_def)
  then have 6: "\<not> balanced drifted_loan" by (simp add: balanced_def)
  show ?thesis using 1 2 3 4 5 6 by blast
qed

text \<open>
  C1, amended. In every ledger reached from an empty world state by accepted transactions,
  a stored record has repayments and outstanding balance adding up to the principal
  exactly, provided each repayment made on its key was an exact float64 subtraction
  (repayments on other keys do not matter). Whatever the ledger, \<open>ApplyForLoan\<close> stores a
  record whose books add up, \<open>ApproveLoan\<close> leaves the books of the record as they were,
  and a \<open>MakeRepayment\<close> on a record whose books add up leaves them adding up if and only
  if its subtraction is exact.
\<close>

theorem books_balance_when_exact:
  "(reachable_exact_on k st \<and> world st k = Some l \<longrightarrow> balanced l)
   \<and> (ApplyForLoan st0 loanID applicantName loanAmount termMonths interestRate = (None, st1)
        \<and> world st1 loanID = Some applied \<longrightarrow> balanced applied)
   \<and> (ApproveLoan st2 key2 status = (None, st3) \<and> world st2 key2 = Some old2
        \<and> world st3 key2 = Some decided \<longrightarrow> balanced decided = balanced old2)
   \<and> (MakeRepayment st4 key4 amount = (None, st5) \<and> world st4 key4 = Some old4
        \<and> balanced old4 \<and> world st5 key4 = Some repaid \<longrightarrow>
        balanced repaid = exact_sub (Outstanding old4) amount)"
proof (intro conjI impI)
  assume "reachable_exact_on k st \<and> world st k = Some l"
  then show "balanced l" using reachable_exact_on_balanced [of k st l] by simp
next
  assume "ApplyForLoan st0 loanID applicantName loanAmount termMonths interestRate = (None, st1)
        \<and> world st1 loanID = Some applied"
  then show "balanced applied" using apply_balanced by blast
next
  assume "ApproveLoan st2 key2 status = (None, st3) \<and> world st2 key2 = Some old2
        \<and> world st3 key2 = Some decided"
  then show "balanced decided = balanced old2" using decide_balanced by blast
next
  assume "MakeRepayment st4 key4 amount = (None, st5) \<and> world st4 key4 = Some old4
        \<and> balanced old4 \<and> world st5 key4 = Some repaid"
  then show "balanced repaid = exact_sub (Outstanding old4) amount"
    using repay_balanced by blast
qed

theorem books_balance_when_exact_witness:
  "reachable_exact_on ''L1'' paid_stub \<and> world paid_stub ''L1'' = Some paid_loan
   \<and> balanced paid_loan
   \<and> reachable_exact_on ''L2'' two_stub \<and> world two_stub ''L2'' = Some second_loan
   \<and> balanced second_loan
   \<and> ApplyForLoan stub0 ''L1'' ''Jane Doe'' f64_5000 12 rate_5_5 = (None, applied_stub)
   \<and> world applied_stub ''L1'' = Some sample_loan \<and> balanced sample_loan
   \<and> ApproveLoan applied_stub ''L1'' ''APPROVED'' = (None, approved_stub)
   \<and> world approved_stub ''L1'' = Some (sample_loan\<lparr>Status := ''APPROVED''\<rparr>)
   \<and> balanced (sample_loan\<lparr>Status := ''APPROVED''\<rparr>)
   \<and> MakeRepayment approved_stub ''L1'' f64_2000 = (None, repaid_stub)
   \<and> world repaid_stub ''L1'' = Some repaid_loan
   \<and> exact_sub f64_5000 f64_2000 \<and> balanced repaid_loan"
proof -
  have 1: "world paid_stub ''L1'' = Some paid_loan" "world two_stub ''L2'' = Some second_loan"
    "world applied_stub ''L1'' = Some sample_loan"
    "world approved_stub ''L1'' = Some (sample_loan\<lparr>Status := ''APPROVED''\<rparr>)"
    "world repaid_stub ''L1'' = Some repaid_loan"
    by (simp_all add: sample_defs two_stub_def)
  have 2: "Outstanding (sample_loan\<lparr>Status := ''APPROVED''\<rparr>) = f64_5000"
    by (simp add: sample_loan_def)
  have a: "balanced paid_loan"
    using books_balance_when_exact [where k = "''L1''" and st = paid_stub and l = paid_loan]
      reachable_exact_paid_stub 1 by simp
  have b: "balanced second_loan"
    using books_balance_when_exact [where k = "''L2''" and st = two_stub and l = second_loan]
      reachable_exact_two_stub 1 by simp
  have c: "balanced sample_loan"
    using books_balance_when_exact [where ?st0.0 = stub0 and loanID = "''L1''"
        and applicantName = "''Jane Doe''" and loanAmount = f64_5000 and termMonths = 12
        and interestRate = rate_5_5 and ?st1.0 = applied_stub and applied = sample_loan]
      apply_sample 1 by simp
  have d: "balanced (sample_loan\<lparr>Status := ''APPROVED''\<rparr>)"
    using books_balance_when_exact [where ?st2.0 = applied_stub and ?key2.0 = "''L1''"
        and status = "''APPROVED''" and ?st3.0 = approved_stub and ?old2.0 = sample_loan
        and decided = "sample_loan\<lparr>Status := ''APPROVED''\<rparr>"]
      approve_sample 1 c by simp
  have e: "balanced repaid_loan"
    using books_balance_when_exact [where ?st4.0 = approved_stub and ?key4.0 = "''L1''"
        and amount = f64_2000 and ?st5.0 = repaid_stub
        and ?old4.0 = "sample_loan\<lparr>Status := ''APPROVED''\<rparr>" and repaid = repaid_loan]
      repay_2000_sample 1 d 2 exact_samples(1) by simp
  show ?thesis
    using 1 a b c d e reachable_exact_paid_stub reachable_exact_two_stub apply_sample
      approve_sample repay_2000_sample exact_samples(1) by simp
qed

section \<open>Repaying\<close>

text \<open>
  C2, as the specification states it, fails on the code: the new balance is the float64
  difference, which is rounded. On an APPROVED loan of \<open>2^54\<close> a repayment of 1 satisfies
  \<open>0 < amount <= outstanding\<close> and is accepted, the amount is appended, and the outstanding
  balance stays \<open>2^54\<close>: it has not been decremented by the amount.
\<close>

theorem MakeRepayment_rounds_counterexample:
  "world big_approved ''L1'' = Some big_loan \<and> Status big_loan = ''APPROVED''
   \<and> f64_lt f64_zero f64_one \<and> f64_le f64_one (Outstanding big_loan)
   \<and> MakeRepayment big_approved ''L1'' f64_one = (None, big_repaid)
   \<and> world big_repaid ''L1'' = Some (big_loan\<lparr>Repayments := [f64_one]\<rparr>)
   \<and> Outstanding (big_loan\<lparr>Repayments := [f64_one]\<rparr>) = Outstanding big_loan
   \<and> scaled (Outstanding (big_loan\<lparr>Repayments := [f64_one]\<rparr>))
       \<noteq> scaled (Outstanding big_loan) - scaled f64_one"
proof -
  have "0 < scaled f64_one" using big_tests(1) by (simp add: f64_lt_def)
  then have "scaled f64_2_54 \<noteq> scaled f64_2_54 - scaled f64_one" by simp
  then show ?thesis using big_tests repay_big
    by (simp add: big_loan_def big_approved_def big_repaid_def)
qed

text \<open>
  C2, amended. A \<open>MakeRepayment\<close> that succeeds on a stored APPROVED record with
  \<open>0 < amount <= outstanding\<close> stores, under the same key, the record with \<open>amount\<close>
  appended as the last repayment and the outstanding balance replaced by the float64
  difference \<open>outstanding - amount\<close> (the exact difference rounded to the nearest float64);
  when that difference is \<open><= 0\<close> it is the zero pattern exactly and the status becomes
  PAID. No other field of the record, no other key and nothing else of the ledger changes.
\<close>

theorem MakeRepayment_applies:
  assumes "world st loanID = Some loan" and "Status loan = ''APPROVED''"
    and "f64_lt f64_zero amount" and "f64_le amount (Outstanding loan)"
    and "MakeRepayment st loanID amount = (None, st')"
  shows "st' = st\<lparr>world := (world st)(loanID \<mapsto>
            (if f64_le (f64_sub (Outstanding loan) amount) f64_zero
             then loan\<lparr>Outstanding := f64_sub (Outstanding loan) amount,
                      Repayments := Repayments loan @ [amount], Status := ''PAID''\<rparr>
             else loan\<lparr>Outstanding := f64_sub (Outstanding loan) amount,
                      Repayments := Repayments loan @ [amount]\<rparr>))\<rparr>
       \<and> (f64_le (f64_sub (Outstanding loan) amount) f64_zero \<longrightarrow>
            f64_sub (Outstanding loan) amount = 0)"
proof -
  from assms(5) obtain loan' where l: "world st loanID = Some loan'"
    and f: "is_finite amount" "is_finite (f64_sub (Outstanding loan') amount)"
      "\<not> f64_le amount f64_zero" "\<not> f64_gt amount (Outstanding loan')"
    and s: "st' = st\<lparr>world := (world st)(loanID \<mapsto>
        (if f64_le (f64_sub (Outstanding loan') amount) f64_zero
         then loan'\<lparr>Outstanding := f64_sub (Outstanding loan') amount,
                  Repayments := Repayments loan' @ [amount], Status := ''PAID''\<rparr>
         else loan'\<lparr>Outstanding := f64_sub (Outstanding loan') amount,
                  Repayments := Repayments loan' @ [amount]\<rparr>))\<rparr>"
    by (rule MakeRepayment_success)
  have eq: "loan' = loan" using l assms(1) by simp
  obtain n where n: "n \<le> 2047 * 2 ^ 52" "f64_sub (Outstanding loan) amount = pack False n"
    using repay_difference [OF f] eq by auto
  have "f64_le (f64_sub (Outstanding loan) amount) f64_zero \<longrightarrow>
            f64_sub (Outstanding loan) amount = 0"
    using n pack_pos_nonpositive [of n] by (simp add: f64_le_def)
  then show ?thesis using s eq by simp
qed

theorem MakeRepayment_applies_witness:
  "world approved_stub ''L1'' = Some (sample_loan\<lparr>Status := ''APPROVED''\<rparr>)
   \<and> f64_lt f64_zero f64_2000 \<and> f64_le f64_2000 f64_5000
   \<and> MakeRepayment approved_stub ''L1'' f64_2000 = (None, repaid_stub)
   \<and> world repaid_stub ''L1'' = Some repaid_loan
   \<and> f64_lt f64_zero f64_3000 \<and> f64_le f64_3000 f64_3000
   \<and> MakeRepayment repaid_stub ''L1'' f64_3000 = (None, paid_stub)
   \<and> world paid_stub ''L1'' = Some paid_loan
   \<and> f64_sub f64_3000 f64_3000 = 0"
  using MakeRepayment_applies [of approved_stub "''L1''" "sample_loan\<lparr>Status := ''APPROVED''\<rparr>"
      f64_2000 repaid_stub]
    MakeRepayment_applies [of repaid_stub "''L1''" repaid_loan f64_3000 paid_stub]
    repay_2000_sample repay_3000_sample amount_tests sub_3000_3000
  by (simp add: approved_stub_def repaid_stub_def paid_stub_def f64_zero_def)

section \<open>Outstanding balance and the PAID status\<close>

text \<open>
  C3. In every ledger reached from an empty world state by accepted transactions, a stored
  record has outstanding \<open>== 0\<close> if and only if its status is PAID. A record just
  created by \<open>ApplyForLoan\<close> has outstanding \<open>> 0\<close> and status APPLIED. An accepted
  transaction after which a record is PAID that was not PAID (or not there) before is a
  \<open>MakeRepayment\<close> on that key, and it leaves the outstanding balance at zero.
\<close>

theorem paid_iff_outstanding_zero:
  "(reachable st \<and> world st k = Some l \<longrightarrow>
      (f64_eq (Outstanding l) f64_zero \<longleftrightarrow> Status l = ''PAID''))
   \<and> (ApplyForLoan st loanID applicantName loanAmount termMonths interestRate = (None, st') \<longrightarrow>
      (\<exists>new. world st' loanID = Some new \<and> f64_gt (Outstanding new) f64_zero
         \<and> Status new = ''APPLIED''))
   \<and> (reachable st \<and> submit t st = (None, st'') \<and> world st'' k = Some l''
       \<and> Status l'' = ''PAID'' \<and> (\<forall>old. world st k = Some old \<longrightarrow> Status old \<noteq> ''PAID'') \<longrightarrow>
      (\<exists>amount. t = Repay k amount) \<and> f64_eq (Outstanding l'') f64_zero)"
proof (intro conjI impI)
  assume "reachable st \<and> world st k = Some l"
  then show "f64_eq (Outstanding l) f64_zero \<longleftrightarrow> Status l = ''PAID''"
    using reachable_inv [of st k l] by simp
next
  assume a: "ApplyForLoan st loanID applicantName loanAmount termMonths interestRate = (None, st')"
  from ApplyForLoan_success [OF a]
  have "\<not> f64_le loanAmount f64_zero" "is_finite loanAmount"
    and "world st' loanID = Some \<lparr>LoanID = loanID, ApplicantName = applicantName, LoanAmount = loanAmount,
            TermMonths = termMonths, InterestRate = interestRate, Outstanding = loanAmount,
            Status = ''APPLIED'', Repayments = []\<rparr>"
    by simp_all
  then show "\<exists>new. world st' loanID = Some new \<and> f64_gt (Outstanding new) f64_zero
         \<and> Status new = ''APPLIED''"
    by (auto simp add: f64_gt_def f64_lt_def f64_le_def finite_iff)
next
  assume a: "reachable st \<and> submit t st = (None, st'') \<and> world st'' k = Some l''
       \<and> Status l'' = ''PAID'' \<and> (\<forall>old. world st k = Some old \<longrightarrow> Status old \<noteq> ''PAID'')"
  show "\<exists>amount. t = Repay k amount"
  proof (cases t)
    case (Apply loanID applicantName loanAmount termMonths interestRate)
    then have "ApplyForLoan st loanID applicantName loanAmount termMonths interestRate = (None, st'')"
      using a by simp
    from ApplyForLoan_success [OF this] a show ?thesis
      by (cases "k = loanID") auto
  next
    case (Decide loanID status)
    then have "ApproveLoan st loanID status = (None, st'')" using a by simp
    then obtain loan where "world st loanID = Some loan"
      "status = ''APPROVED'' \<or> status = ''REJECTED''"
      "st'' = st\<lparr>world := (world st)(loanID \<mapsto> loan\<lparr>Status := status\<rparr>)\<rparr>"
      by (rule ApproveLoan_success)
    then show ?thesis using a by (cases "k = loanID") auto
  next
    case (Repay loanID amount)
    then have "MakeRepayment st loanID amount = (None, st'')" using a by simp
    then obtain loan where "st'' = st\<lparr>world := (world st)(loanID \<mapsto>
        (if f64_le (f64_sub (Outstanding loan) amount) f64_zero
         then loan\<lparr>Outstanding := f64_sub (Outstanding loan) amount,
                  Repayments := Repayments loan @ [amount], Status := ''PAID''\<rparr>
         else loan\<lparr>Outstanding := f64_sub (Outstanding loan) amount,
                  Repayments := Repayments loan @ [amount]\<rparr>))\<rparr>"
      by (rule MakeRepayment_success) auto
    then have "k \<noteq> loanID \<Longrightarrow> world st'' k = world st k" by simp
    then show ?thesis using a Repay by (cases "k = loanID") auto
  qed
next
  assume a: "reachable st \<and> submit t st = (None, st'') \<and> world st'' k = Some l''
       \<and> Status l'' = ''PAID'' \<and> (\<forall>old. world st k = Some old \<longrightarrow> Status old \<noteq> ''PAID'')"
  then have r: "reachable st''" using reachable.accepted [of st t st''] by simp
  show "f64_eq (Outstanding l'') f64_zero" using reachable_inv [OF r, of k l''] a by simp
qed

theorem paid_iff_outstanding_zero_witness:
  "reachable paid_stub \<and> world paid_stub ''L1'' = Some paid_loan
   \<and> f64_eq (Outstanding paid_loan) f64_zero \<and> Status paid_loan = ''PAID''
   \<and> reachable repaid_stub \<and> world repaid_stub ''L1'' = Some repaid_loan
   \<and> \<not> f64_eq (Outstanding repaid_loan) f64_zero \<and> Status repaid_loan \<noteq> ''PAID''
   \<and> ApplyForLoan stub0 ''L1'' ''Jane Doe'' f64_5000 12 rate_5_5 = (None, applied_stub)
   \<and> world applied_stub ''L1'' = Some sample_loan
   \<and> f64_gt (Outstanding sample_loan) f64_zero \<and> Status sample_loan = ''APPLIED''
   \<and> submit (Repay ''L1'' f64_3000) repaid_stub = (None, paid_stub)"
  using paid_iff_outstanding_zero [where st = paid_stub and k = "''L1''" and l = paid_loan]
    paid_iff_outstanding_zero [where st = repaid_stub and k = "''L1''" and l = repaid_loan
      and t = "Repay ''L1'' f64_3000" and st'' = paid_stub and l'' = paid_loan]
    paid_iff_outstanding_zero [where st = stub0 and loanID = "''L1''"
      and applicantName = "''Jane Doe''" and loanAmount = f64_5000 and termMonths = 12
      and interestRate = rate_5_5 and st' = applied_stub]
    reachable_paid_stub reachable_repaid_stub apply_sample repay_3000_sample
  by (simp add: sample_defs)

section \<open>Applying\<close>

text \<open>
  C4, as the specification states it, fails on the code: the arguments are float64, and a
  principal of \<open>+Inf\<close> is \<open>> 0\<close>, passes every check and is then refused by
  \<open>json.Marshal\<close>, so the transaction does not succeed; a NaN principal is not \<open>> 0\<close>,
  yet no check catches it (\<open>NaN <= 0\<close> is false) and the error is the one of
  \<open>json.Marshal\<close>, not an InvalidArgument.
\<close>

theorem ApplyForLoan_infinite_counterexample:
  "''L1'' \<noteq> [] \<and> ''Jane Doe'' \<noteq> [] \<and> f64_gt pos_inf f64_zero \<and> 0 < sint (12 :: 64 word)
   \<and> f64_le f64_zero rate_5_5 \<and> world stub0 ''L1'' = None
   \<and> ApplyForLoan stub0 ''L1'' ''Jane Doe'' pos_inf 12 rate_5_5 = (Some MarshalFailed, stub0)
   \<and> \<not> f64_gt quiet_nan f64_zero
   \<and> ApplyForLoan stub0 ''L1'' ''Jane Doe'' quiet_nan 12 rate_5_5 = (Some MarshalFailed, stub0)
   \<and> kind_of MarshalFailed \<noteq> InvalidArgument"
  by (simp add: tx_defs zero_tests amount_defs stub0_def)

text \<open>
  C4, amended. \<open>ApplyForLoan\<close> with a non-empty id and applicant name, a finite principal
  \<open>> 0\<close>, a term \<open>> 0\<close> and a finite interest rate \<open>>= 0\<close>, on a key with no record
  (the ledger answering the read and accepting the write), succeeds and stores under the id
  a record with these arguments, status APPLIED, outstanding equal to the principal and no
  repayments. With a principal and a rate that are not NaN, every violation of one of the
  argument conditions fails with InvalidArgument. A principal or rate that is not finite
  never succeeds, and a failing call leaves the ledger as it was.
\<close>

theorem ApplyForLoan_creates:
  "(loanID \<noteq> [] \<and> applicantName \<noteq> [] \<and> f64_gt loanAmount f64_zero \<and> is_finite loanAmount
      \<and> 0 < sint termMonths \<and> f64_le f64_zero interestRate \<and> is_finite interestRate
      \<and> world st loanID = None \<and> \<not> read_fails st loanID \<and> \<not> write_fails st loanID \<longrightarrow>
    ApplyForLoan st loanID applicantName loanAmount termMonths interestRate
      = (None, st\<lparr>world := (world st)(loanID \<mapsto>
           \<lparr>LoanID = loanID, ApplicantName = applicantName, LoanAmount = loanAmount,
            TermMonths = termMonths, InterestRate = interestRate, Outstanding = loanAmount,
            Status = ''APPLIED'', Repayments = []\<rparr>)\<rparr>))
   \<and> (\<not> is_nan loanAmount \<and> \<not> is_nan interestRate
      \<and> (loanID = [] \<or> applicantName = [] \<or> \<not> f64_gt loanAmount f64_zero
           \<or> \<not> 0 < sint termMonths \<or> \<not> f64_le f64_zero interestRate) \<longrightarrow>
    (\<exists>e. ApplyForLoan st loanID applicantName loanAmount termMonths interestRate = (Some e, st)
         \<and> kind_of e = InvalidArgument))
   \<and> (\<not> is_finite loanAmount \<or> \<not> is_finite interestRate \<longrightarrow>
        fst (ApplyForLoan st loanID applicantName loanAmount termMonths interestRate) \<noteq> None)
   \<and> (fst (ApplyForLoan st loanID applicantName loanAmount termMonths interestRate) \<noteq> None \<longrightarrow>
        snd (ApplyForLoan st loanID applicantName loanAmount termMonths interestRate) = st)"
proof (intro conjI impI)
  assume a: "loanID \<noteq> [] \<and> applicantName \<noteq> [] \<and> f64_gt loanAmount f64_zero \<and> is_finite loanAmount
      \<and> 0 < sint termMonths \<and> f64_le f64_zero interestRate \<and> is_finite interestRate
      \<and> world st loanID = None \<and> \<not> read_fails st loanID \<and> \<not> write_fails st loanID"
  then have "\<not> f64_le loanAmount f64_zero" "\<not> f64_lt interestRate f64_zero"
    by (auto simp add: f64_gt_def f64_lt_def f64_le_def)
  then show "ApplyForLoan st loanID applicantName loanAmount termMonths interestRate
      = (None, st\<lparr>world := (world st)(loanID \<mapsto>
           \<lparr>LoanID = loanID, ApplicantName = applicantName, LoanAmount = loanAmount,
            TermMonths = termMonths, InterestRate = interestRate, Outstanding = loanAmount,
            Status = ''APPLIED'', Repayments = []\<rparr>)\<rparr>)"
    using a by (simp add: ApplyForLoan_def GetState_def PutState_def Marshal_def encodable_def)
next
  assume b: "\<not> is_nan loanAmount \<and> \<not> is_nan interestRate
      \<and> (loanID = [] \<or> applicantName = [] \<or> \<not> f64_gt loanAmount f64_zero
           \<or> \<not> 0 < sint termMonths \<or> \<not> f64_le f64_zero interestRate)"
  then have "loanID = [] \<or> applicantName = [] \<or> f64_le loanAmount f64_zero
           \<or> sint termMonths \<le> 0 \<or> f64_lt interestRate f64_zero"
    by (auto simp add: f64_gt_def f64_lt_def f64_le_def)
  then show "\<exists>e. ApplyForLoan st loanID applicantName loanAmount termMonths interestRate = (Some e, st)
         \<and> kind_of e = InvalidArgument"
    by (auto simp add: ApplyForLoan_def)
next
  assume "\<not> is_finite loanAmount \<or> \<not> is_finite interestRate"
  then show "fst (ApplyForLoan st loanID applicantName loanAmount termMonths interestRate) \<noteq> None"
    by (auto simp add: ApplyForLoan_def GetState_def Marshal_def encodable_def Let_def
        split: option.splits)
next
  assume "fst (ApplyForLoan st loanID applicantName loanAmount termMonths interestRate) \<noteq> None"
  then show "snd (ApplyForLoan st loanID applicantName loanAmount termMonths interestRate) = st"
    by (auto simp add: ApplyForLoan_def GetState_def PutState_def Marshal_def Let_def
        split: option.splits if_splits)
qed

theorem ApplyForLoan_creates_witness:
  "ApplyForLoan stub0 ''L1'' ''Jane Doe'' f64_5000 12 rate_5_5 = (None, applied_stub)
   \<and> world applied_stub ''L1'' = Some sample_loan
   \<and> ApplyForLoan stub0 ''L1'' ''Jane Doe'' f64_zero 12 rate_5_5
       = (Some NonPositiveLoanAmount, stub0)
   \<and> fst (ApplyForLoan stub0 ''L1'' ''Jane Doe'' pos_inf 12 rate_5_5) \<noteq> None"
  using ApplyForLoan_creates [of "''L1''" "''Jane Doe''" f64_5000 12 rate_5_5 stub0]
    ApplyForLoan_creates [of "''L1''" "''Jane Doe''" f64_zero 12 rate_5_5 stub0]
    ApplyForLoan_creates [of "''L1''" "''Jane Doe''" pos_inf 12 rate_5_5 stub0]
  by (simp add: apply_sample rejected_applications applied_stub_def)




section \<open>Deciding\<close>

text \<open>
  C6. \<open>ApproveLoan\<close> with a decision that is APPROVED or REJECTED, on a ledger that answers
  the read: with no record for the id it fails with the does-not-exist error (NotFound);
  with a record whose status is not APPLIED it fails with InvalidState and the ledger is
  unchanged; with a record whose status is APPLIED (stored, hence encodable, and the ledger
  accepting the write) it succeeds and stores the same record with only \<open>Status\<close> replaced
  by the decision, every other key and field being as before.
\<close>

theorem ApproveLoan_decides:
  assumes "status = ''APPROVED'' \<or> status = ''REJECTED''"
    and "\<not> read_fails st loanID"
  shows "(world st loanID = None \<longrightarrow>
            ApproveLoan st loanID status = (Some LoanDoesNotExist, st)
            \<and> kind_of LoanDoesNotExist = NotFound)
       \<and> (\<forall>loan. world st loanID = Some loan \<and> Status loan \<noteq> ''APPLIED'' \<longrightarrow>
            ApproveLoan st loanID status = (Some NotInAppliedStatus, st)
            \<and> kind_of NotInAppliedStatus = InvalidState)
       \<and> (\<forall>loan. world st loanID = Some loan \<and> Status loan = ''APPLIED''
              \<and> encodable loan \<and> \<not> write_fails st loanID \<longrightarrow>
            ApproveLoan st loanID status
              = (None, st\<lparr>world := (world st)(loanID \<mapsto> loan\<lparr>Status := status\<rparr>)\<rparr>))"
  using assms
  by (auto simp add: ApproveLoan_def GetState_def PutState_def Marshal_def encodable_def)

theorem ApproveLoan_decides_witness:
  "ApproveLoan stub0 ''L1'' ''APPROVED'' = (Some LoanDoesNotExist, stub0)
   \<and> ApproveLoan approved_stub ''L1'' ''REJECTED'' = (Some NotInAppliedStatus, approved_stub)
   \<and> ApproveLoan applied_stub ''L1'' ''APPROVED'' = (None, approved_stub)"
  using ApproveLoan_decides [of "''APPROVED''" stub0 "''L1''"]
    ApproveLoan_decides [of "''REJECTED''" approved_stub "''L1''"]
    ApproveLoan_decides [of "''APPROVED''" applied_stub "''L1''"]
    amounts_finite
  by (simp add: sample_defs encodable_def)

section \<open>Rejected repayments\<close>

text \<open>
  C7. \<open>MakeRepayment\<close> rejects, in the order of its checks: an amount \<open><= 0\<close> with
  InvalidArgument; then, the ledger answering the read, a missing record with NotFound, a
  record whose status is not APPROVED with InvalidState, and an amount above the
  outstanding balance with ExceedsBalance. In each of these cases, and in every case in
  which the transaction returns an error, the ledger is left exactly as it was.
\<close>

theorem MakeRepayment_rejects:
  "(f64_le amount f64_zero \<longrightarrow>
      MakeRepayment st loanID amount = (Some NonPositiveRepayment, st)
      \<and> kind_of NonPositiveRepayment = InvalidArgument)
   \<and> (\<not> f64_le amount f64_zero \<and> \<not> read_fails st loanID \<and> world st loanID = None \<longrightarrow>
      MakeRepayment st loanID amount = (Some LoanDoesNotExist, st)
      \<and> kind_of LoanDoesNotExist = NotFound)
   \<and> (\<forall>loan. \<not> f64_le amount f64_zero \<and> \<not> read_fails st loanID
        \<and> world st loanID = Some loan \<and> Status loan \<noteq> ''APPROVED'' \<longrightarrow>
      MakeRepayment st loanID amount = (Some NotApproved, st)
      \<and> kind_of NotApproved = InvalidState)
   \<and> (\<forall>loan. \<not> f64_le amount f64_zero \<and> \<not> read_fails st loanID
        \<and> world st loanID = Some loan \<and> Status loan = ''APPROVED''
        \<and> f64_gt amount (Outstanding loan) \<longrightarrow>
      MakeRepayment st loanID amount = (Some ExceedsOutstanding, st)
      \<and> kind_of ExceedsOutstanding = ExceedsBalance)
   \<and> (fst (MakeRepayment st loanID amount) \<noteq> None \<longrightarrow>
      snd (MakeRepayment st loanID amount) = st)"
  by (auto simp add: MakeRepayment_def GetState_def PutState_def Marshal_def Let_def
      split: option.splits)

theorem MakeRepayment_rejects_witness:
  "MakeRepayment approved_stub ''L1'' f64_zero = (Some NonPositiveRepayment, approved_stub)
   \<and> MakeRepayment approved_stub ''L2'' f64_2000 = (Some LoanDoesNotExist, approved_stub)
   \<and> MakeRepayment applied_stub ''L1'' f64_2000 = (Some NotApproved, applied_stub)
   \<and> MakeRepayment approved_stub ''L1'' f64_5001 = (Some ExceedsOutstanding, approved_stub)"
  using MakeRepayment_rejects [of f64_zero approved_stub "''L1''"]
    MakeRepayment_rejects [of f64_2000 approved_stub "''L2''"]
    MakeRepayment_rejects [of f64_2000 applied_stub "''L1''"]
    MakeRepayment_rejects [of f64_5001 approved_stub "''L1''"]
  by (simp add: rejected_repayments)

section \<open>Querying\<close>

text \<open>
  C8. \<open>CheckLoanBalance\<close> is read-only: for every id it leaves the ledger exactly as it
  was, and when the ledger answers the read it returns the stored record if there is one
  for the id and fails with the does-not-exist error (kind NotFound) otherwise.
\<close>

theorem CheckLoanBalance_read_only:
  "snd (CheckLoanBalance st loanID) = st
   \<and> (\<not> read_fails st loanID \<longrightarrow>
        (case world st loanID of
           Some loan \<Rightarrow> fst (CheckLoanBalance st loanID) = Inr loan
         | None \<Rightarrow> fst (CheckLoanBalance st loanID) = Inl LoanDoesNotExist
                    \<and> kind_of LoanDoesNotExist = NotFound))"
  by (simp add: CheckLoanBalance_def GetState_def split: option.splits)

theorem CheckLoanBalance_read_only_witness:
  "CheckLoanBalance applied_stub ''L1'' = (Inr sample_loan, applied_stub)
   \<and> CheckLoanBalance applied_stub ''L2'' = (Inl LoanDoesNotExist, applied_stub)"
  using CheckLoanBalance_read_only [of applied_stub "''L1''"]
    CheckLoanBalance_read_only [of applied_stub "''L2''"]
  by (simp add: sample_defs prod_eq_iff)

section \<open>Decision validated before the ledger is read\<close>

text \<open>
  C10. In \<open>ApproveLoan\<close> the decision is checked before the ledger is consulted: for every
  decision other than APPROVED and REJECTED the transaction fails with the invalid-decision
  error, of kind InvalidArgument, whatever the ledger holds for the id (also when it holds
  nothing, or cannot be read), and the ledger is left as it was.
\<close>

theorem ApproveLoan_invalid_decision_first:
  assumes "status \<noteq> ''APPROVED''" and "status \<noteq> ''REJECTED''"
  shows "ApproveLoan st loanID status = (Some InvalidDecision, st)
         \<and> kind_of InvalidDecision = InvalidArgument
         \<and> fst (ApproveLoan st loanID status) \<noteq> Some LoanDoesNotExist"
  using assms by (simp add: ApproveLoan_def)

theorem ApproveLoan_invalid_decision_first_witness:
  "''PAID'' \<noteq> ''APPROVED'' \<and> ''PAID'' \<noteq> ''REJECTED'' \<and> world stub0 ''L1'' = None
   \<and> ApproveLoan stub0 ''L1'' ''PAID'' = (Some InvalidDecision, stub0)"
  using ApproveLoan_invalid_decision_first [of "''PAID''" stub0 "''L1''"]
  by (simp add: stub0_def)

end
